theory Spec2Isabelle
  imports Complex_Main
begin

section \<open>Errors and arrays\<close>

text \<open>
  The rasterisers of \<^verbatim>\<open>kwave/utils/maputils.py\<close> are modelled as pure functions.
  An exception is a value: \<open>Inl e\<close> is a raise, \<open>Inr v\<close> a return.
  A two-dimensional numpy array is the list of its rows. Cells hold 0 or 1; numpy's
  element type (int, float or bool) is not modelled, and \<open>True\<close> is 1.
  Floating-point numbers are idealised as reals. Integer arguments are taken as
  \<open>int\<close>, on which the source's \<^verbatim>\<open>int(round(.))\<close> is the identity.
\<close>

datatype error = ValueError | AssertionError | IndexError | TypeError

type_synonym 'a array2 = "'a list list"

definition zeros :: "int \<Rightarrow> int \<Rightarrow> error + int array2" where
  \<comment> \<open>\<^verbatim>\<open>np.zeros((Nx, Ny))\<close>: a negative dimension raises ValueError.\<close>
  "zeros Nx Ny =
     (if Nx < 0 \<or> Ny < 0 then Inl ValueError
      else Inr (replicate (nat Nx) (replicate (nat Ny) 0)))"

definition py_index :: "nat \<Rightarrow> int \<Rightarrow> nat option" where
  \<comment> \<open>Python indexing on an axis of length \<open>n\<close>: a negative index counts from the end.\<close>
  "py_index n i =
     (if 0 \<le> i \<and> i < int n then Some (nat i)
      else if - int n \<le> i \<and> i < 0 then Some (nat (i + int n))
      else None)"

definition setitem :: "int array2 \<Rightarrow> int \<Rightarrow> int \<Rightarrow> int \<Rightarrow> error + int array2" where
  \<comment> \<open>\<^verbatim>\<open>a[i, j] = v\<close>; an index out of range raises IndexError.\<close>
  "setitem a i j v =
     (case py_index (length a) i of
        None \<Rightarrow> Inl IndexError
      | Some i' \<Rightarrow>
          (case py_index (length (a ! i')) j of
             None \<Rightarrow> Inl IndexError
           | Some j' \<Rightarrow> Inr (a[i' := (a ! i')[j' := v]])))"

definition cell :: "int array2 \<Rightarrow> nat \<Rightarrow> nat \<Rightarrow> int" where
  \<comment> \<open>The value at the 0-based position \<open>(i, j)\<close>; 0 outside the array.\<close>
  "cell a i j = (if i < length a \<and> j < length (a ! i) then a ! i ! j else 0)"

definition set_cells :: "int array2 \<Rightarrow> (nat \<times> nat) list" where
  \<comment> \<open>The 0-based positions of the non-zero cells, in row-major order.\<close>
  "set_cells a =
     concat (map (\<lambda>i. map (\<lambda>j. (i, j)) (filter (\<lambda>j. a ! i ! j \<noteq> 0) [0..<length (a ! i)]))
                 [0..<length a])"

section \<open>PixelDistanceField: createPixelDim and makePixelMap\<close>

definition arange :: "real \<Rightarrow> real \<Rightarrow> real list" where
  \<comment> \<open>\<^verbatim>\<open>np.arange(start, stop, 1)\<close>: \<open>start + k\<close> for \<open>0 \<le> k < ceil (stop - start)\<close>.\<close>
  "arange start stop = map (\<lambda>k. start + real k) [0..<nat \<lceil>stop - start\<rceil>]"

definition createPixelDim :: "int \<Rightarrow> string \<Rightarrow> int \<Rightarrow> real list" where
  "createPixelDim Nx origin_size shift =
     (if Nx mod 2 = 0 then
        (if origin_size = ''single'' then
           (if shift = 1 then arange (- real_of_int Nx / 2) (real_of_int Nx / 2 - 1 + 1)
            else arange (- real_of_int Nx / 2 + 1) (real_of_int Nx / 2 + 1))
         else arange (- real_of_int Nx / 2 + 1) (0 + 1)
              @ arange 0 (- real_of_int Nx / 2 - 1 + 1))
      else
        (if origin_size = ''single'' then
           arange (- (real_of_int Nx - 1) / 2) ((real_of_int Nx - 1) / 2 + 1)
         else
           (if shift = 1 then
              arange (- (real_of_int Nx - 1) / 2) (0 + 1)
              @ arange 0 ((real_of_int Nx - 1) / 2 - 1 + 1)
            else
              arange (- (real_of_int Nx - 1) / 2 + 1) (0 + 1)
              @ arange 0 ((real_of_int Nx - 1) / 2 + 1))))"

text \<open>
  The optional inputs of \<^verbatim>\<open>makePixelMap\<close> are read as a list of (name, value) pairs;
  a name other than \<^verbatim>\<open>'Shift'\<close> and \<^verbatim>\<open>'OriginSize'\<close> is \<open>Unknown\<close>.
  Only the two-dimensional case (\<^verbatim>\<open>Nz = None\<close>) is modelled.
\<close>

datatype opt_arg = Shift "int list" | OriginSize string | Unknown string

fun read_args :: "opt_arg list \<Rightarrow> string \<times> int list \<Rightarrow> error + string \<times> int list" where
  "read_args [] acc = Inr acc"
| "read_args (Shift v # rest) (origin_size, shift) = read_args rest (origin_size, v)"
| "read_args (OriginSize v # rest) (origin_size, shift) = read_args rest (v, shift)"
| "read_args (Unknown k # rest) acc = Inl ValueError"

definition makePixelMap :: "int \<Rightarrow> int \<Rightarrow> opt_arg list \<Rightarrow> error + real array2" where
  "makePixelMap Nx Ny args =
     (case read_args args (''single'', [1, 1]) of
        Inl e \<Rightarrow> Inl e
      | Inr (origin_size, shift) \<Rightarrow>
          if origin_size \<noteq> ''single'' \<and> origin_size \<noteq> ''double'' then Inl AssertionError
          else if length shift \<noteq> 2 then Inl AssertionError
          else
            let nx = createPixelDim Nx origin_size (shift ! 0);
                ny = createPixelDim Ny origin_size (shift ! 1)
            in Inr (map (\<lambda>r_x. map (\<lambda>r_y. sqrt (r_x ^ 2 + r_y ^ 2)) ny) nx))"

section \<open>ShapeRasterizer: makeDisc\<close>

definition assign_where :: "int array2 \<Rightarrow> bool array2 \<Rightarrow> int \<Rightarrow> error + int array2" where
  \<comment> \<open>\<^verbatim>\<open>a[mask] = v\<close>; a mask of another shape raises IndexError.\<close>
  "assign_where a msk v =
     (if map length msk \<noteq> map length a then Inl IndexError
      else Inr (map2 (\<lambda>row mrow. map2 (\<lambda>x m. if m then v else x) row mrow) a msk))"

definition roll1 :: "int \<Rightarrow> 'a list \<Rightarrow> 'a list" where
  \<comment> \<open>\<^verbatim>\<open>np.roll\<close> along one axis: the element at \<open>i\<close> moves to \<open>(i + s) mod n\<close>.\<close>
  "roll1 s xs = map (\<lambda>i. xs ! nat ((int i - s) mod int (length xs))) [0..<length xs]"

definition roll :: "'a array2 \<Rightarrow> int \<times> int \<Rightarrow> 'a array2" where
  "roll a s = roll1 (fst s) (map (roll1 (snd s)) a)"

definition makeDisc :: "int \<Rightarrow> int \<Rightarrow> int \<Rightarrow> int \<Rightarrow> real \<Rightarrow> error + int array2" where
  "makeDisc Nx Ny cx0 cy0 radius =
     (let cx = (if cx0 = 0 then \<lfloor>real_of_int Nx / 2\<rfloor> + 1 else cx0);
          cy = (if cy0 = 0 then \<lfloor>real_of_int Ny / 2\<rfloor> + 1 else cy0)
      in
        if \<not> ((0 \<le> cx \<and> cx < Nx) \<and> (0 \<le> cy \<and> cy < Ny)) then Inl AssertionError
        else
          (case zeros Nx Ny of
             Inl e \<Rightarrow> Inl e
           | Inr disc0 \<Rightarrow>
               (case makePixelMap Nx Ny [Shift [0, 0]] of
                  Inl e \<Rightarrow> Inl e
                | Inr r \<Rightarrow>
                    (case assign_where disc0 (map (map (\<lambda>d. d \<le> radius)) r) 1 of
                       Inl e \<Rightarrow> Inl e
                     | Inr disc \<Rightarrow>
                         Inr (roll disc (cx - \<lceil>real_of_int Nx / 2\<rceil>,
                                         cy - \<lceil>real_of_int Ny / 2\<rceil>))))))"

section \<open>CircleRasterizer: makeCircle\<close>

definition arctan2 :: "real \<Rightarrow> real \<Rightarrow> real" where
  \<comment> \<open>\<^verbatim>\<open>np.arctan2(y, x)\<close>, the angle of the point \<open>(x, y)\<close> in \<open>(-pi, pi]\<close>.\<close>
  "arctan2 y x =
     (if x > 0 then arctan (y / x)
      else if x < 0 then (if y \<ge> 0 then arctan (y / x) + pi else arctan (y / x) - pi)
      else if y > 0 then pi / 2
      else if y < 0 then - pi / 2
      else 0)"

fun for_each :: "('s \<Rightarrow> 'a \<Rightarrow> error + 's) \<Rightarrow> 's \<Rightarrow> 'a list \<Rightarrow> error + 's" where
  \<comment> \<open>A \<^verbatim>\<open>for\<close> loop whose body updates the state \<open>s\<close> or raises.\<close>
  "for_each f s [] = Inr s"
| "for_each f s (x # xs) = (case f s x of Inl e \<Rightarrow> Inl e | Inr s' \<Rightarrow> for_each f s' xs)"

definition clamp_arc_angle :: "real option \<Rightarrow> real" where
  "clamp_arc_angle arc_angle =
     (case arc_angle of
        None \<Rightarrow> 2 * pi
      | Some a \<Rightarrow> if a > 2 * pi then 2 * pi else if a < 0 then 0 else a)"

definition default_centre :: "int \<Rightarrow> int \<Rightarrow> int" where
  \<comment> \<open>A centre coordinate of 0 stands for the middle of the axis.\<close>
  "default_centre c N = (if c = 0 then \<lfloor>real_of_int N / 2\<rfloor> + 1 else c)"

definition plot ::
  "int \<Rightarrow> int \<Rightarrow> int \<Rightarrow> int \<Rightarrow> real \<Rightarrow> int array2 \<Rightarrow> int \<times> int \<Rightarrow> error + int array2" where
  \<comment> \<open>The body of the two loops over \<^verbatim>\<open>zip(px, py)\<close>.\<close>
  "plot Nx Ny cx cy arc_angle circle p =
     (case p of (px_i, py_i) \<Rightarrow>
        if arctan2 (real_of_int (px_i - cx)) (real_of_int (py_i - cy)) + pi \<le> arc_angle then
          if px_i \<ge> 1 \<and> px_i \<le> Nx \<and> py_i \<ge> 1 \<and> py_i \<le> Ny
          then setitem circle (px_i - 1) (py_i - 1) 1
          else Inr circle
        else Inr circle)"

definition midpoint_step :: "int \<Rightarrow> int \<Rightarrow> int \<Rightarrow> int \<times> int \<times> int" where
  \<comment> \<open>One update of the loop variables \<open>(x, y, d)\<close> of the midpoint circle algorithm.\<close>
  "midpoint_step x0 y0 d0 =
     (let x = x0 + 1 in
        if d0 < 0 then (x, y0, d0 + x + x + 1)
        else (let y = y0 - 1; a = x - y + 1 in (x, y, d0 + a + a)))"

function circle_loop ::
  "int \<Rightarrow> int \<Rightarrow> int \<Rightarrow> int \<Rightarrow> real \<Rightarrow> int \<Rightarrow> int \<Rightarrow> int \<Rightarrow> int array2 \<Rightarrow> error + int array2" where
  "circle_loop Nx Ny cx cy arc_angle x0 y0 d0 circle =
     (if x0 < y0 - 1 then
        (case midpoint_step x0 y0 d0 of (x, y, d) \<Rightarrow>
           (let px = [x + cx, y + cx, y + cx, x + cx, - x + cx, - y + cx, - y + cx, - x + cx];
                py = [y + cy, x + cy, - x + cy, - y + cy, - y + cy, - x + cy, x + cy, y + cy]
            in case for_each (plot Nx Ny cx cy arc_angle) circle (zip px py) of
                 Inl e \<Rightarrow> Inl e
               | Inr circle' \<Rightarrow> circle_loop Nx Ny cx cy arc_angle x y d circle'))
      else Inr circle)"
  by pat_completeness auto
termination
  by (relation "measure (\<lambda>(Nx, Ny, cx, cy, arc_angle, x, y, d, circle). nat (y - x))")
     (auto simp: midpoint_step_def Let_def split: if_splits)

declare circle_loop.simps [simp del]

definition makeCircle ::
  "int \<Rightarrow> int \<Rightarrow> int \<Rightarrow> int \<Rightarrow> int \<Rightarrow> real option \<Rightarrow> error + int array2" where
  \<comment> \<open>\<^verbatim>\<open>plot_circle\<close> is left at its default, \<^verbatim>\<open>False\<close>.\<close>
  "makeCircle Nx Ny cx0 cy0 radius arc_angle0 =
     (let arc_angle = clamp_arc_angle arc_angle0;
          cx = default_centre cx0 Nx;
          cy = default_centre cy0 Ny
      in case zeros Nx Ny of
           Inl e \<Rightarrow> Inl e
         | Inr circle0 \<Rightarrow>
             (let x = 0; y = radius; d = 1 - radius in
                case (if cx \<ge> 1 \<and> cx \<le> Nx \<and> cy - y \<ge> 1 \<and> cy - y \<le> Ny
                      then setitem circle0 (cx - 1) (cy - y - 1) 1
                      else Inr circle0) of
                  Inl e \<Rightarrow> Inl e
                | Inr circle1 \<Rightarrow>
                    (case for_each (plot Nx Ny cx cy arc_angle) circle1
                            (zip [cx, cx + y, cx - y] [cy + y, cy, cy]) of
                       Inl e \<Rightarrow> Inl e
                     | Inr circle2 \<Rightarrow> circle_loop Nx Ny cx cy arc_angle x y d circle2)))"

definition marked :: "int array2 \<Rightarrow> int \<Rightarrow> int \<Rightarrow> bool" where
  \<comment> \<open>The cell at the 1-based grid point \<open>(px, py)\<close> is set.\<close>
  "marked a px py = (1 \<le> px \<and> 1 \<le> py \<and> cell a (nat (px - 1)) (nat (py - 1)) = 1)"

section \<open>LineRasterizer: makeLine\<close>

text \<open>
  Modelled from the spec: \<^verbatim>\<open>matlab_find\<close> is imported from \<^verbatim>\<open>kwave/utils/matrixutils.py\<close>,
  which is not among the sources. It returns the 1-based positions of the true entries, in
  order, so that \<^verbatim>\<open>matlab_find(diff == min(diff))[0]\<close> is the position of the first
  minimum: the spec has ties "broken by first match in enumeration order".
\<close>

definition matlab_find :: "bool list \<Rightarrow> nat list" where
  "matlab_find bs = map Suc (filter (\<lambda>i. bs ! i) [0..<length bs])"

definition nearest :: "real list \<Rightarrow> nat" where
  \<comment> \<open>\<^verbatim>\<open>index[0] - 1\<close> for \<^verbatim>\<open>index = matlab_find(diff == min(diff))[0]\<close>.\<close>
  "nearest diff = hd (matlab_find (map (\<lambda>d. d = min_list diff) diff)) - 1"

definition closest_y :: "real \<Rightarrow> real \<Rightarrow> int list \<Rightarrow> int list \<Rightarrow> int \<times> int" where
  \<comment> \<open>The candidate whose \<open>y\<close> is closest to the line \<open>y = m * x + c\<close>.\<close>
  "closest_y m c poss_x poss_y =
     (let true_y = map (\<lambda>px. m * real_of_int px + c) poss_x;
          diff = map2 (\<lambda>py ty. (real_of_int py - ty) ^ 2) poss_y true_y;
          index = nearest diff
      in (poss_x ! index, poss_y ! index))"

definition closest_x :: "real \<Rightarrow> real \<Rightarrow> int list \<Rightarrow> int list \<Rightarrow> int \<times> int" where
  \<comment> \<open>The candidate whose \<open>x\<close> is closest to the line \<open>x = (y - c) / m\<close>.\<close>
  "closest_x m c poss_x poss_y =
     (let true_x = map (\<lambda>py. (real_of_int py - c) / m) poss_y;
          diff = map2 (\<lambda>px tx. (real_of_int px - tx) ^ 2) poss_x true_x;
          index = nearest diff
      in (poss_x ! index, poss_y ! index))"

text \<open>
  The two searching loops of the point-to-point mode may keep \<open>x\<close> (or \<open>y\<close>) unchanged in
  a step, so they are partial functions: \<open>None\<close> is a loop that never ends.

  In the loop over \<open>x\<close> the candidates \<^verbatim>\<open>poss_x\<close> and \<^verbatim>\<open>poss_y\<close> are Python lists and the
  gradient \<open>m\<close> is a \<^verbatim>\<open>numpy.float64\<close>. The product \<^verbatim>\<open>m * poss_x\<close> is then not taken
  element by element: a numpy scalar leaves the multiplication by a list to the list's
  repetition, which needs an integer count, and Python raises TypeError. The loop over
  \<open>y\<close> starts with \<^verbatim>\<open>poss_y - c\<close>, which numpy does take element by element, and the loops
  of the angled mode build their candidates with \<^verbatim>\<open>np.array\<close>.
\<close>

definition float_times_list :: "real \<Rightarrow> int list \<Rightarrow> error + real list" where
  \<comment> \<open>\<^verbatim>\<open>m * poss_x\<close> for a \<^verbatim>\<open>numpy.float64\<close> \<open>m\<close> and a Python list \<^verbatim>\<open>poss_x\<close>.\<close>
  "float_times_list m poss_x = Inl TypeError"

partial_function (option) line_loop_x ::
  "real \<Rightarrow> real \<Rightarrow> int \<Rightarrow> int \<Rightarrow> int \<Rightarrow> int array2 \<Rightarrow> (error + int array2) option" where
  "line_loop_x m c x_end x y line =
     (if x < x_end then
        (let poss_x = [x, x, x + 1, x + 1, x + 1];
             poss_y = [y - 1, y + 1, y - 1, y, y + 1]
         in case float_times_list m poss_x of
              Inl e \<Rightarrow> Some (Inl e)
            | Inr m_poss_x \<Rightarrow>
                (let true_y = map (\<lambda>v. v + c) m_poss_x;
                     diff = map2 (\<lambda>py ty. (real_of_int py - ty) ^ 2) poss_y true_y;
                     index = nearest diff;
                     x' = poss_x ! index;
                     y' = poss_y ! index
                 in case setitem line (x' - 1) (y' - 1) 1 of
                      Inl e \<Rightarrow> Some (Inl e)
                    | Inr line' \<Rightarrow> line_loop_x m c x_end x' y' line'))
      else Some (Inr line))"

partial_function (option) line_loop_y ::
  "real \<Rightarrow> real \<Rightarrow> int \<Rightarrow> int \<Rightarrow> int \<Rightarrow> int array2 \<Rightarrow> (error + int array2) option" where
  "line_loop_y m c y_end x y line =
     (if y < y_end then
        (case closest_x m c [x - 1, x + 1, x - 1, x, x + 1] [y, y, y + 1, y + 1, y + 1] of
           (x', y') \<Rightarrow>
             (case setitem line x' y' 1 of
                Inl e \<Rightarrow> Some (Inl e)
              | Inr line' \<Rightarrow> line_loop_y m c y_end x' y' line'))
      else Some (Inr line))"

declare line_loop_x.simps [code]
declare line_loop_y.simps [code]

function line_loop_v :: "int \<Rightarrow> int \<Rightarrow> int \<Rightarrow> int array2 \<Rightarrow> error + int array2" where
  "line_loop_v y_end x y line =
     (if y < y_end then
        (let y' = y + 1 in
           case setitem line x y' 1 of
             Inl e \<Rightarrow> Inl e
           | Inr line' \<Rightarrow> line_loop_v y_end x y' line')
      else Inr line)"
  by pat_completeness auto
termination
  by (relation "measure (\<lambda>(y_end, x, y, line). nat (y_end - y))") auto

declare line_loop_v.simps [simp del]

definition makeLine_AtoB ::
  "int \<Rightarrow> int \<Rightarrow> int \<times> int \<Rightarrow> int \<times> int \<Rightarrow> (error + int array2) option" where
  \<comment> \<open>\<open>a\<close> and \<open>b\<close> are the 0-based end points. A gradient \<open>m\<close> of plus or minus infinity
      (\<open>fst b = fst a\<close>) fails both \<^verbatim>\<open>abs(m) < 1\<close> and \<^verbatim>\<open>not np.isinf(abs(m))\<close>.\<close>
  "makeLine_AtoB Nx Ny startpoint endpoint =
     (let a = (fst startpoint - 1, snd startpoint - 1);
          b = (fst endpoint - 1, snd endpoint - 1)
      in
        if a = b then Some (Inl ValueError)
        else if fst a < 0 \<or> snd a < 0 \<or> fst b < 0 \<or> snd b < 0
                \<or> fst a > Nx - 1 \<or> fst b > Nx - 1 \<or> snd a > Ny - 1 \<or> snd b > Ny - 1
        then Some (Inl ValueError)
        else
          (case zeros Nx Ny of
             Inl e \<Rightarrow> Some (Inl e)
           | Inr line \<Rightarrow>
               if fst b \<noteq> fst a
                  \<and> \<bar>real_of_int (snd b - snd a) / real_of_int (fst b - fst a)\<bar> < 1
               then
                 (let m = real_of_int (snd b - snd a) / real_of_int (fst b - fst a);
                      c = real_of_int (snd a) - m * real_of_int (fst a)
                  in case (if fst a < fst b then (fst a, snd a, fst b) else (fst b, snd b, fst a)) of
                       (x, y, x_end) \<Rightarrow>
                         (case setitem line x y 1 of
                            Inl e \<Rightarrow> Some (Inl e)
                          | Inr line1 \<Rightarrow> line_loop_x m c x_end x y line1))
               else if fst b \<noteq> fst a then
                 (let m = real_of_int (snd b - snd a) / real_of_int (fst b - fst a);
                      c = real_of_int (snd a) - m * real_of_int (fst a)
                  in case (if snd a < snd b then (fst a, snd a, snd b) else (fst b, snd b, snd a)) of
                       (x, y, y_end) \<Rightarrow>
                         (case setitem line x y 1 of
                            Inl e \<Rightarrow> Some (Inl e)
                          | Inr line1 \<Rightarrow> line_loop_y m c y_end x y line1))
               else
                 (case (if snd a < snd b then (fst a, snd a, snd b) else (fst b, snd b, snd a)) of
                    (x, y, y_end) \<Rightarrow>
                      (case setitem line x y 1 of
                         Inl e \<Rightarrow> Some (Inl e)
                       | Inr line1 \<Rightarrow> Some (line_loop_v y_end x y line1)))))"

text \<open>
  The angled mode. Each of its eight loops leaves the grid after finitely many steps;
  the termination proofs of the four searching loops use that the point chosen is one of
  the three candidates.
\<close>

lemma nearest_less: "diff \<noteq> [] \<Longrightarrow> nearest diff < length diff"
proof -
  assume ne: "diff \<noteq> []"
  let ?is = "filter (\<lambda>i. map (\<lambda>d. d = min_list diff) diff ! i) [0..<length diff]"
  from ne have "min_list diff \<in> set diff"
    by (simp add: min_list_Min)
  then obtain i where i: "i < length diff" "diff ! i = min_list diff"
    by (auto simp: in_set_conv_nth)
  then have "i \<in> set ?is" by simp
  then have n: "?is \<noteq> []" by (metis empty_iff list.set(1))
  then have "hd ?is \<in> set ?is" by (rule hd_in_set)
  then have "hd ?is < length diff" by simp
  with n show ?thesis
    by (simp add: nearest_def matlab_find_def hd_map)
qed

lemma closest_y_3:
  "closest_y m c [x1, x2, x3] [y1, y2, y3] \<in> {(x1, y1), (x2, y2), (x3, y3)}"
proof -
  let ?diff = "map2 (\<lambda>py ty. (real_of_int py - ty) ^ 2) [y1, y2, y3]
                 (map (\<lambda>px. m * real_of_int px + c) [x1, x2, x3])"
  have "nearest ?diff < length ?diff" by (rule nearest_less) simp
  then have "nearest ?diff < 3" by simp
  then consider "nearest ?diff = 0" | "nearest ?diff = 1" | "nearest ?diff = 2"
    by linarith
  then show ?thesis
    by cases (simp_all add: closest_y_def Let_def)
qed

definition line_length_of :: "int \<times> int \<Rightarrow> int \<Rightarrow> int \<Rightarrow> real" where
  \<comment> \<open>\<^verbatim>\<open>np.sqrt((x - startpoint[0])**2 + (y - startpoint[1])**2)\<close>\<close>
  "line_length_of startpoint x y =
     sqrt (real_of_int ((x - fst startpoint) ^ 2 + (y - snd startpoint) ^ 2))"

function angled_pi ::
  "int \<Rightarrow> int \<times> int \<Rightarrow> real \<Rightarrow> int \<Rightarrow> int \<Rightarrow> real \<Rightarrow> int array2 \<Rightarrow> error + int array2" where
  \<comment> \<open>\<^verbatim>\<open>abs(angle) == np.pi\<close>\<close>
  "angled_pi Ny startpoint linelength x y line_length line =
     (if line_length < linelength then
        (let y' = y + 1 in
           if y' > Ny then Inr line
           else
             (case setitem line (x - 1) (y' - 1) 1 of
                Inl e \<Rightarrow> Inl e
              | Inr line' \<Rightarrow>
                  angled_pi Ny startpoint linelength x y' (line_length_of startpoint x y') line'))
      else Inr line)"
  by pat_completeness auto
termination
  by (relation "measure (\<lambda>(Ny, startpoint, linelength, x, y, line_length, line). nat (Ny - y + 1))")
     auto

function angled_above_half_pi ::
  "int \<Rightarrow> int \<times> int \<Rightarrow> real \<Rightarrow> real \<Rightarrow> real \<Rightarrow> int \<Rightarrow> int \<Rightarrow> real \<Rightarrow> int array2
   \<Rightarrow> error + int array2" where
  \<comment> \<open>\<^verbatim>\<open>(angle < np.pi) and (angle > np.pi/2)\<close>\<close>
  "angled_above_half_pi Ny startpoint linelength m c x y line_length line =
     (if line_length < linelength then
        (case closest_y m c [x - 1, x - 1, x] [y, y + 1, y + 1] of
           (x', y') \<Rightarrow>
             if x' < 0 \<or> y' > Ny - 1 then Inr line
             else
               (case setitem line (x' - 1) (y' - 1) 1 of
                  Inl e \<Rightarrow> Inl e
                | Inr line' \<Rightarrow>
                    angled_above_half_pi Ny startpoint linelength m c x' y'
                      (line_length_of startpoint x' y') line'))
      else Inr line)"
  by pat_completeness auto
termination
proof (relation "measure (\<lambda>(Ny, startpoint, linelength, m, c, x, y, line_length, line).
                    nat (x - y + Ny + 1))", goal_cases)
  case 1
  show ?case by simp
next
  case (2 Ny startpoint linelength m c x y line_length line x' y' line')
  from 2(2) closest_y_3 [of m c "x - 1" "x - 1" x y "y + 1" "y + 1"]
  have "(x', y') \<in> {(x - 1, y), (x - 1, y + 1), (x, y + 1)}" by simp
  with 2(3) show ?case by auto
qed

function angled_half_pi ::
  "int \<times> int \<Rightarrow> real \<Rightarrow> int \<Rightarrow> int \<Rightarrow> real \<Rightarrow> int array2 \<Rightarrow> error + int array2" where
  \<comment> \<open>\<^verbatim>\<open>angle == np.pi/2\<close>\<close>
  "angled_half_pi startpoint linelength x y line_length line =
     (if line_length < linelength then
        (let x' = x - 1 in
           if x' < 1 then Inr line
           else
             (case setitem line (x' - 1) (y - 1) 1 of
                Inl e \<Rightarrow> Inl e
              | Inr line' \<Rightarrow>
                  angled_half_pi startpoint linelength x' y (line_length_of startpoint x' y) line'))
      else Inr line)"
  by pat_completeness auto
termination
  by (relation "measure (\<lambda>(startpoint, linelength, x, y, line_length, line). nat x)") auto

function angled_below_half_pi ::
  "int \<times> int \<Rightarrow> real \<Rightarrow> real \<Rightarrow> real \<Rightarrow> int \<Rightarrow> int \<Rightarrow> real \<Rightarrow> int array2
   \<Rightarrow> error + int array2" where
  \<comment> \<open>\<^verbatim>\<open>(angle < np.pi/2) and (angle > 0)\<close>\<close>
  "angled_below_half_pi startpoint linelength m c x y line_length line =
     (if line_length < linelength then
        (case closest_y m c [x - 1, x - 1, x] [y, y - 1, y - 1] of
           (x', y') \<Rightarrow>
             if x' < 1 \<or> y' < 1 then Inr line
             else
               (case setitem line (x' - 1) (y' - 1) 1 of
                  Inl e \<Rightarrow> Inl e
                | Inr line' \<Rightarrow>
                    angled_below_half_pi startpoint linelength m c x' y'
                      (line_length_of startpoint x' y') line'))
      else Inr line)"
  by pat_completeness auto
termination
proof (relation "measure (\<lambda>(startpoint, linelength, m, c, x, y, line_length, line).
                    nat (x + y))", goal_cases)
  case 1
  show ?case by simp
next
  case (2 startpoint linelength m c x y line_length line x' y' line')
  from 2(2) closest_y_3 [of m c "x - 1" "x - 1" x y "y - 1" "y - 1"]
  have "(x', y') \<in> {(x - 1, y), (x - 1, y - 1), (x, y - 1)}" by simp
  with 2(3) show ?case by auto
qed

function angled_zero ::
  "int \<times> int \<Rightarrow> real \<Rightarrow> int \<Rightarrow> int \<Rightarrow> real \<Rightarrow> int array2 \<Rightarrow> error + int array2" where
  \<comment> \<open>\<^verbatim>\<open>angle == 0\<close>\<close>
  "angled_zero startpoint linelength x y line_length line =
     (if line_length < linelength then
        (let y' = y - 1 in
           if y' < 1 then Inr line
           else
             (case setitem line (x - 1) (y' - 1) 1 of
                Inl e \<Rightarrow> Inl e
              | Inr line' \<Rightarrow>
                  angled_zero startpoint linelength x y' (line_length_of startpoint x y') line'))
      else Inr line)"
  by pat_completeness auto
termination
  by (relation "measure (\<lambda>(startpoint, linelength, x, y, line_length, line). nat y)") auto

function angled_above_neg_half_pi ::
  "int \<Rightarrow> int \<times> int \<Rightarrow> real \<Rightarrow> real \<Rightarrow> real \<Rightarrow> int \<Rightarrow> int \<Rightarrow> real \<Rightarrow> int array2
   \<Rightarrow> error + int array2" where
  \<comment> \<open>\<^verbatim>\<open>(angle < 0) and (angle > -np.pi/2)\<close>\<close>
  "angled_above_neg_half_pi Nx startpoint linelength m c x y line_length line =
     (if line_length < linelength then
        (case closest_y m c [x + 1, x + 1, x] [y, y - 1, y - 1] of
           (x', y') \<Rightarrow>
             if x' > Nx \<or> y' < 1 then Inr line
             else
               (case setitem line (x' - 1) (y' - 1) 1 of
                  Inl e \<Rightarrow> Inl e
                | Inr line' \<Rightarrow>
                    angled_above_neg_half_pi Nx startpoint linelength m c x' y'
                      (line_length_of startpoint x' y') line'))
      else Inr line)"
  by pat_completeness auto
termination
proof (relation "measure (\<lambda>(Nx, startpoint, linelength, m, c, x, y, line_length, line).
                    nat (Nx - x + y))", goal_cases)
  case 1
  show ?case by simp
next
  case (2 Nx startpoint linelength m c x y line_length line x' y' line')
  from 2(2) closest_y_3 [of m c "x + 1" "x + 1" x y "y - 1" "y - 1"]
  have "(x', y') \<in> {(x + 1, y), (x + 1, y - 1), (x, y - 1)}" by simp
  with 2(3) show ?case by auto
qed

function angled_neg_half_pi ::
  "int \<Rightarrow> int \<times> int \<Rightarrow> real \<Rightarrow> int \<Rightarrow> int \<Rightarrow> real \<Rightarrow> int array2 \<Rightarrow> error + int array2" where
  \<comment> \<open>\<^verbatim>\<open>angle == -np.pi/2\<close>\<close>
  "angled_neg_half_pi Nx startpoint linelength x y line_length line =
     (if line_length < linelength then
        (let x' = x + 1 in
           if x' > Nx then Inr line
           else
             (case setitem line (x' - 1) (y - 1) 1 of
                Inl e \<Rightarrow> Inl e
              | Inr line' \<Rightarrow>
                  angled_neg_half_pi Nx startpoint linelength x' y
                    (line_length_of startpoint x' y) line'))
      else Inr line)"
  by pat_completeness auto
termination
  by (relation "measure (\<lambda>(Nx, startpoint, linelength, x, y, line_length, line). nat (Nx - x + 1))")
     auto

function angled_below_neg_half_pi ::
  "int \<Rightarrow> int \<Rightarrow> int \<times> int \<Rightarrow> real \<Rightarrow> real \<Rightarrow> real \<Rightarrow> int \<Rightarrow> int \<Rightarrow> real \<Rightarrow> int array2
   \<Rightarrow> error + int array2" where
  \<comment> \<open>\<^verbatim>\<open>(angle < -np.pi/2) and (angle > -np.pi)\<close>\<close>
  "angled_below_neg_half_pi Nx Ny startpoint linelength m c x y line_length line =
     (if line_length < linelength then
        (case closest_y m c [x + 1, x + 1, x] [y, y + 1, y + 1] of
           (x', y') \<Rightarrow>
             if x' > Nx \<or> y' > Ny then Inr line
             else
               (case setitem line (x' - 1) (y' - 1) 1 of
                  Inl e \<Rightarrow> Inl e
                | Inr line' \<Rightarrow>
                    angled_below_neg_half_pi Nx Ny startpoint linelength m c x' y'
                      (line_length_of startpoint x' y') line'))
      else Inr line)"
  by pat_completeness auto
termination
proof (relation "measure (\<lambda>(Nx, Ny, startpoint, linelength, m, c, x, y, line_length, line).
                    nat (Nx - x + (Ny - y) + 1))", goal_cases)
  case 1
  show ?case by simp
next
  case (2 Nx Ny startpoint linelength m c x y line_length line x' y' line')
  from 2(2) closest_y_3 [of m c "x + 1" "x + 1" x y "y + 1" "y + 1"]
  have "(x', y') \<in> {(x + 1, y), (x + 1, y + 1), (x, y + 1)}" by simp
  with 2(3) show ?case by auto
qed

declare angled_pi.simps [simp del]
declare angled_above_half_pi.simps [simp del]
declare angled_half_pi.simps [simp del]
declare angled_below_half_pi.simps [simp del]
declare angled_zero.simps [simp del]
declare angled_above_neg_half_pi.simps [simp del]
declare angled_neg_half_pi.simps [simp del]
declare angled_below_neg_half_pi.simps [simp del]

definition normalise_angle :: "real \<Rightarrow> real" where
  \<comment> \<open>\<^verbatim>\<open>angle % (2 * np.pi)\<close>, then the shift into \<open>(-pi, pi]\<close>.\<close>
  "normalise_angle angle0 =
     (let angle = angle0 - 2 * pi * real_of_int \<lfloor>angle0 / (2 * pi)\<rfloor> in
        if angle > pi then angle - 2 * pi
        else if angle < - pi then angle + 2 * pi
        else angle)"

definition makeLine_angled ::
  "int \<Rightarrow> int \<Rightarrow> int \<times> int \<Rightarrow> real option \<Rightarrow> real option \<Rightarrow> error + int array2" where
  \<comment> \<open>An angle of \<^verbatim>\<open>None\<close> fails at \<^verbatim>\<open>angle % (2 * np.pi)\<close>, a length of \<^verbatim>\<open>None\<close> at the
      first \<^verbatim>\<open>line_length < linelength\<close>; both raise TypeError.\<close>
  "makeLine_angled Nx Ny startpoint angle0 length0 =
     (case angle0 of
        None \<Rightarrow> Inl TypeError
      | Some ang \<Rightarrow>
          (let angle = normalise_angle ang in
             case zeros Nx Ny of
               Inl e \<Rightarrow> Inl e
             | Inr line0 \<Rightarrow>
                 (case startpoint of (x, y) \<Rightarrow>
                    (case setitem line0 (x - 1) (y - 1) 1 of
                       Inl e \<Rightarrow> Inl e
                     | Inr line \<Rightarrow>
                         (case length0 of
                            None \<Rightarrow> Inl TypeError
                          | Some linelength \<Rightarrow>
                              if \<bar>angle\<bar> = pi then
                                angled_pi Ny startpoint linelength x y 0 line
                              else if angle < pi \<and> angle > pi / 2 then
                                (let m = - tan (angle - pi / 2);
                                     c = real_of_int y - m * real_of_int x
                                 in angled_above_half_pi Ny startpoint linelength m c x y 0 line)
                              else if angle = pi / 2 then
                                angled_half_pi startpoint linelength x y 0 line
                              else if angle < pi / 2 \<and> angle > 0 then
                                (let m = tan (pi / 2 - angle);
                                     c = real_of_int y - m * real_of_int x
                                 in angled_below_half_pi startpoint linelength m c x y 0 line)
                              else if angle = 0 then
                                angled_zero startpoint linelength x y 0 line
                              else if angle < 0 \<and> angle > - pi / 2 then
                                (let m = - tan (pi / 2 + angle);
                                     c = real_of_int y - m * real_of_int x
                                 in angled_above_neg_half_pi Nx startpoint linelength m c x y 0 line)
                              else if angle = - pi / 2 then
                                angled_neg_half_pi Nx startpoint linelength x y 0 line
                              else if angle < - pi / 2 \<and> angle > - pi then
                                (let m = tan (- angle - pi / 2);
                                     c = real_of_int y - m * real_of_int x
                                 in angled_below_neg_half_pi Nx Ny startpoint linelength m c x y 0 line)
                              else Inr line)))))"

definition makeLine ::
  "int \<Rightarrow> int \<Rightarrow> int \<times> int \<Rightarrow> (int \<times> int) option \<Rightarrow> real option \<Rightarrow> real option
   \<Rightarrow> (error + int array2) option" where
  \<comment> \<open>The start point and the end point are pairs, so the two length checks cannot fail.
      The check of the start point against the grid at function entry builds a ValueError
      and drops it without \<^verbatim>\<open>raise\<close>: it has no effect and no counterpart here.\<close>
  "makeLine Nx Ny startpoint endpoint angle linelength =
     (case endpoint of
        Some e \<Rightarrow> makeLine_AtoB Nx Ny startpoint e
      | None \<Rightarrow> Some (makeLine_angled Nx Ny startpoint angle linelength))"

section \<open>ArcBuilder: makeArc\<close>

datatype radius = Finite int | Infinite






section \<open>CartesianCircleSampler: makeCartCircle\<close>

text \<open>
  A coordinate is a \<open>real option\<close>: \<open>None\<close> is a value that is not a finite number.
  numpy's float division by zero raises nothing; it gives nan (for \<open>0 / 0\<close>) or an infinity,
  and the cosine and the sine of either, scaled and shifted, are nan.
\<close>

definition np_divide :: "real \<Rightarrow> real \<Rightarrow> real option" where
  "np_divide a b = (if b = 0 then None else Some (a / b))"

definition makeCartCircle ::
  "real \<Rightarrow> int \<Rightarrow> (real \<times> real) option \<Rightarrow> real \<Rightarrow> real option list \<times> real option list" where
  \<comment> \<open>The two rows of the \<open>2 \<times> n\<close> array. \<^verbatim>\<open>plot_circle\<close> is left at \<^verbatim>\<open>False\<close>.\<close>
  "makeCartCircle radius num_points0 center_pos arc_angle =
     (let full_circle = (arc_angle = 2 * pi);
          (cx, cy) = (case center_pos of None \<Rightarrow> (0, 0) | Some p \<Rightarrow> p);
          num_points = (if \<not> full_circle then num_points0 - 1 else num_points0);
          angles0 = map (\<lambda>k. map_option (\<lambda>q. q + pi / 2)
                                 (np_divide (real k * arc_angle) (real_of_int num_points)))
                        [0..<nat (num_points + 1)];
          angles = (if full_circle then butlast angles0 else angles0)
      in (map (map_option (\<lambda>a. radius * cos a + cx)) angles,
          map (map_option (\<lambda>a. radius * sin (- a) + cy)) angles))"

section \<open>Predicates used to state and prove the properties\<close>

definition shaped :: "int \<Rightarrow> int \<Rightarrow> 'a array2 \<Rightarrow> bool" where
  "shaped Nx Ny a = (length a = nat Nx \<and> list_all (\<lambda>row. length row = nat Ny) a)"

definition passes :: "int \<Rightarrow> int \<Rightarrow> int \<Rightarrow> int \<Rightarrow> real \<Rightarrow> int \<Rightarrow> int \<Rightarrow> bool" where
  "passes Nx Ny cx cy arc_angle px py =
     (arctan2 (real_of_int (px - cx)) (real_of_int (py - cy)) + pi \<le> arc_angle
      \<and> 1 \<le> px \<and> px \<le> Nx \<and> 1 \<le> py \<and> py \<le> Ny)"

definition oct :: "int \<Rightarrow> int \<Rightarrow> int \<Rightarrow> int \<Rightarrow> bool" where
  "oct x y dx dy = ((\<bar>dx\<bar> = x \<and> \<bar>dy\<bar> = y) \<or> (\<bar>dx\<bar> = y \<and> \<bar>dy\<bar> = x))"

definition sym8 :: "int \<Rightarrow> int \<Rightarrow> int array2 \<Rightarrow> bool" where
  "sym8 cx cy a =
     (\<forall>dx dy. marked a (cx + dx) (cy + dy) \<longrightarrow>
        marked a (cx - dx) (cy + dy) \<and> marked a (cx + dx) (cy - dy)
        \<and> marked a (cx - dx) (cy - dy) \<and> marked a (cx + dy) (cy + dx)
        \<and> marked a (cx - dy) (cy + dx) \<and> marked a (cx + dy) (cy - dx)
        \<and> marked a (cx - dy) (cy - dx))"

section \<open>Properties of makeDisc\<close>

text \<open>
  C9. \<^verbatim>\<open>makeDisc\<close> fails its assertion whenever the requested centre has
  \<open>cx \<ge> Nx\<close> or \<open>cy \<ge> Ny\<close>; a centre on the last row or the last column of the
  grid is rejected although it lies inside the grid.
\<close>

theorem makeDisc_rejects_last_row_col:
  assumes "cx \<ge> Nx \<or> cy \<ge> Ny"
  shows "makeDisc Nx Ny cx cy radius = Inl AssertionError"
proof -
  have x: "\<not> (0 \<le> (if cx = 0 then \<lfloor>real_of_int Nx / 2\<rfloor> + 1 else cx)
              \<and> (if cx = 0 then \<lfloor>real_of_int Nx / 2\<rfloor> + 1 else cx) < Nx)"
    if "cx \<ge> Nx"
  proof (cases "cx = 0")
    case True
    with that have "Nx \<le> 0" by simp
    then have "\<lfloor>real_of_int Nx / 2\<rfloor> + 1 \<ge> Nx" by linarith
    with True show ?thesis by simp
  next
    case False
    with that show ?thesis by simp
  qed
  have y: "\<not> (0 \<le> (if cy = 0 then \<lfloor>real_of_int Ny / 2\<rfloor> + 1 else cy)
              \<and> (if cy = 0 then \<lfloor>real_of_int Ny / 2\<rfloor> + 1 else cy) < Ny)"
    if "cy \<ge> Ny"
  proof (cases "cy = 0")
    case True
    with that have "Ny \<le> 0" by simp
    then have "\<lfloor>real_of_int Ny / 2\<rfloor> + 1 \<ge> Ny" by linarith
    with True show ?thesis by simp
  next
    case False
    with that show ?thesis by simp
  qed
  from assms x y show ?thesis
    unfolding makeDisc_def Let_def by auto
qed

theorem makeDisc_rejects_last_row_col_witness:
  "((5::int) \<ge> 5 \<or> (3::int) \<ge> 5) \<and> makeDisc 5 5 5 3 1 = Inl AssertionError"
  using makeDisc_rejects_last_row_col [where Nx = 5 and Ny = 5 and cx = 5 and cy = 3 and radius = 1]
  by simp

text \<open>Evaluating \<^verbatim>\<open>makeDisc(5, 5, 3, 3, 1)\<close> step by step.\<close>

lemma makePixelMap_5_5:
  "makePixelMap 5 5 [Shift [0, 0]] =
     Inr (map (\<lambda>r_x. map (\<lambda>r_y. sqrt (r_x ^ 2 + r_y ^ 2)) [-2, -1, 0, 1, 2]) [-2, -1, 0, 1, 2])"
  by (simp add: makePixelMap_def createPixelDim_def arange_def upt_rec Let_def)

lemma zeros_5_5:
  "zeros 5 5 = Inr [[0,0,0,0,0], [0,0,0,0,0], [0,0,0,0,0], [0,0,0,0,0], [0,0,0,0,0]]"
  by code_simp

lemma assign_where_5_5:
  "assign_where [[0,0,0,0,0], [0,0,0,0,0], [0,0,0,0,0], [0,0,0,0,0], [0,0,0,0,0]]
     [[False, False, False, False, False], [False, False, True, False, False],
      [False, True, True, True, False], [False, False, True, False, False],
      [False, False, False, False, False]] 1
   = Inr [[0,0,0,0,0], [0,0,1,0,0], [0,1,1,1,0], [0,0,1,0,0], [0,0,0,0,0]]"
  by code_simp

lemma roll_5_5:
  "roll [[0,0,0,0,0], [0,0,1,0,0], [0,1,1,1,0], [0,0,1,0,0], [0,0,0,0,0::int]] (0, 0)
   = [[0,0,0,0,0], [0,0,1,0,0], [0,1,1,1,0], [0,0,1,0,0], [0,0,0,0,0]]"
  by code_simp

lemma set_cells_5_5:
  "set_cells [[0,0,0,0,0], [0,0,1,0,0], [0,1,1,1,0], [0,0,1,0,0], [0,0,0,0,0]]
   = [(1, 2), (2, 1), (2, 2), (2, 3), (3, 2)]"
  by code_simp

text \<open>
  C7. \<^verbatim>\<open>makeDisc(5, 5, 3, 3, 1)\<close> returns a 5 by 5 grid with exactly 5 set cells:
  the centre cell, at the 0-based position (2, 2), and its 4 axis-aligned neighbours.
\<close>

theorem makeDisc_5_5_3_3_1:
  "makeDisc 5 5 3 3 1
     = Inr [[0,0,0,0,0], [0,0,1,0,0], [0,1,1,1,0], [0,0,1,0,0], [0,0,0,0,0]]
   \<and> map_sum id set_cells (makeDisc 5 5 3 3 1)
     = Inr [(1, 2), (2, 1), (2, 2), (2, 3), (3, 2)]"
  by (simp add: makeDisc_def makePixelMap_5_5 zeros_5_5 assign_where_5_5 roll_5_5
      set_cells_5_5 Let_def)

section \<open>Properties of createPixelDim\<close>

text \<open>
  C2 (the code departs from it). For an even size \<open>N\<close> and a double origin the second
  range, \<^verbatim>\<open>np.arange(0, -N/2 - 1 + 1, 1)\<close>, is empty: for \<open>N = 4\<close> the result is
  \<open>[-1, 0]\<close>, of length 2 and with a single zero, not a vector of length 4 with two
  adjacent zeros.
\<close>

theorem createPixelDim_4_double:
  "createPixelDim 4 ''double'' 1 = [-1, 0] \<and> length (createPixelDim 4 ''double'' 1) = 2"
  by (simp add: createPixelDim_def arange_def upt_rec)

section \<open>Properties of makeCircle\<close>

lemma shaped_row: "shaped Nx Ny a \<Longrightarrow> i < length a \<Longrightarrow> length (a ! i) = nat Ny"
  by (simp add: shaped_def list_all_length)

lemma shaped_zeros: "zeros Nx Ny = Inr a \<Longrightarrow> shaped Nx Ny a"
  by (auto simp: zeros_def shaped_def list_all_length split: if_splits)

lemma marked_zeros: "zeros Nx Ny = Inr a \<Longrightarrow> \<not> marked a px py"
  by (auto simp: zeros_def marked_def cell_def split: if_splits)

lemma setitem_in_range:
  assumes "shaped Nx Ny a" "1 \<le> px" "px \<le> Nx" "1 \<le> py" "py \<le> Ny"
  shows "\<exists>a'. setitem a (px - 1) (py - 1) 1 = Inr a' \<and> shaped Nx Ny a'
           \<and> (\<forall>qx qy. marked a' qx qy = (marked a qx qy \<or> (qx = px \<and> qy = py)))"
proof -
  let ?i = "nat (px - 1)" and ?j = "nat (py - 1)"
  from assms have la: "length a = nat Nx" by (simp add: shaped_def)
  from assms la have i: "?i < length a" by simp
  with assms have lr: "length (a ! ?i) = nat Ny" by (simp add: shaped_row)
  with assms have j: "?j < length (a ! ?i)" by simp
  let ?a' = "a[?i := (a ! ?i)[?j := 1]]"
  from assms la have pi: "py_index (length a) (px - 1) = Some ?i"
    by (simp add: py_index_def)
  from assms lr have pj: "py_index (length (a ! ?i)) (py - 1) = Some ?j"
    by (simp add: py_index_def)
  have s: "setitem a (px - 1) (py - 1) 1 = Inr ?a'"
    by (simp add: setitem_def pi pj)
  have sh: "shaped Nx Ny ?a'"
    using assms(1) lr i by (auto simp: shaped_def list_all_length nth_list_update)
  have m: "marked ?a' qx qy = (marked a qx qy \<or> (qx = px \<and> qy = py))" for qx qy
  proof (cases "1 \<le> qx \<and> 1 \<le> qy")
    case False
    with assms show ?thesis by (auto simp: marked_def)
  next
    case True
    then have e: "(nat (qx - 1) = ?i) = (qx = px)" "(nat (qy - 1) = ?j) = (qy = py)"
      using assms by auto
    show ?thesis
      using True i j e assms(2,4)
      by (auto simp: marked_def cell_def nth_list_update)
  qed
  from s sh m show ?thesis by blast
qed

lemma plot_marked:
  assumes "shaped Nx Ny a"
  shows "\<exists>a'. plot Nx Ny cx cy arc a (px, py) = Inr a' \<and> shaped Nx Ny a'
           \<and> (\<forall>qx qy. marked a' qx qy
                = (marked a qx qy \<or> (qx = px \<and> qy = py \<and> passes Nx Ny cx cy arc px py)))"
proof (cases "passes Nx Ny cx cy arc px py")
  case True
  then have b: "1 \<le> px" "px \<le> Nx" "1 \<le> py" "py \<le> Ny" by (simp_all add: passes_def)
  from setitem_in_range [OF assms b] True show ?thesis
    by (auto simp: plot_def passes_def)
next
  case False
  then have "plot Nx Ny cx cy arc a (px, py) = Inr a"
    by (auto simp: plot_def passes_def)
  with False assms show ?thesis by auto
qed

lemma for_each_plot_marked:
  assumes "shaped Nx Ny a"
  shows "\<exists>a'. for_each (plot Nx Ny cx cy arc) a ps = Inr a' \<and> shaped Nx Ny a'
           \<and> (\<forall>qx qy. marked a' qx qy
                = (marked a qx qy \<or> ((qx, qy) \<in> set ps \<and> passes Nx Ny cx cy arc qx qy)))"
  using assms
proof (induction ps arbitrary: a)
  case Nil
  then show ?case by simp
next
  case (Cons p ps)
  obtain px py where p: "p = (px, py)" by (cases p)
  from plot_marked [OF Cons.prems, of cx cy arc px py] obtain a1 where
    a1: "plot Nx Ny cx cy arc a (px, py) = Inr a1" "shaped Nx Ny a1"
      "\<And>qx qy. marked a1 qx qy
          = (marked a qx qy \<or> (qx = px \<and> qy = py \<and> passes Nx Ny cx cy arc px py))"
    by blast
  from Cons.IH [OF a1(2)] obtain a2 where
    a2: "for_each (plot Nx Ny cx cy arc) a1 ps = Inr a2" "shaped Nx Ny a2"
      "\<And>qx qy. marked a2 qx qy
          = (marked a1 qx qy \<or> ((qx, qy) \<in> set ps \<and> passes Nx Ny cx cy arc qx qy))"
    by blast
  have "for_each (plot Nx Ny cx cy arc) a (p # ps) = Inr a2"
    by (simp add: p a1(1) a2(1))
  moreover have "marked a2 qx qy
      = (marked a qx qy \<or> ((qx, qy) \<in> set (p # ps) \<and> passes Nx Ny cx cy arc qx qy))" for qx qy
    by (auto simp: a2(3) a1(3) p)
  ultimately show ?case using a2(2) by blast
qed












lemma oct_sym:
  "oct x y (- dx) dy = oct x y dx dy" "oct x y dx (- dy) = oct x y dx dy"
  "oct x y dy dx = oct x y dx dy"
  by (auto simp: oct_def)

lemma abs_eq_cases: "0 \<le> v \<Longrightarrow> (\<bar>d\<bar> = v) = (d = v \<or> d = - v)" for d v :: int
  by arith

lemma oct_points:
  assumes "0 \<le> x" "0 \<le> y"
  shows "((cx + dx, cy + dy) \<in> set (zip [x + cx, y + cx, y + cx, x + cx, - x + cx, - y + cx, - y + cx, - x + cx]
                   [y + cy, x + cy, - x + cy, - y + cy, - y + cy, - x + cy, x + cy, y + cy]))
   = oct x y dx dy"
proof -
  have m: "((cx + dx, cy + dy) \<in> set (zip [x + cx, y + cx, y + cx, x + cx, - x + cx, - y + cx, - y + cx, - x + cx]
                   [y + cy, x + cy, - x + cy, - y + cy, - y + cy, - x + cy, x + cy, y + cy]))
     = ((dx = x \<and> dy = y) \<or> (dx = y \<and> dy = x) \<or> (dx = y \<and> dy = - x) \<or> (dx = x \<and> dy = - y)
      \<or> (dx = - x \<and> dy = - y) \<or> (dx = - y \<and> dy = - x) \<or> (dx = - y \<and> dy = x)
      \<or> (dx = - x \<and> dy = y))"
    by simp
  show ?thesis
    unfolding m oct_def abs_eq_cases [OF assms(1)] abs_eq_cases [OF assms(2)] by blast
qed

lemma sym8_extend:
  assumes "sym8 cx cy a"
    and "\<And>dx dy. marked a' (cx + dx) (cy + dy) = (marked a (cx + dx) (cy + dy) \<or> oct x y dx dy)"
  shows "sym8 cx cy a'"
proof -
  have m: "marked a' (cx - dx) (cy + dy) = (marked a (cx - dx) (cy + dy) \<or> oct x y dx dy)"
          "marked a' (cx + dx) (cy - dy) = (marked a (cx + dx) (cy - dy) \<or> oct x y dx dy)"
          "marked a' (cx - dx) (cy - dy) = (marked a (cx - dx) (cy - dy) \<or> oct x y dx dy)"
    for dx dy
    using assms(2) [of "- dx" dy] assms(2) [of dx "- dy"] assms(2) [of "- dx" "- dy"]
    by (simp_all add: oct_sym)
  show ?thesis
    unfolding sym8_def
  proof (intro allI impI)
    fix dx dy
    assume "marked a' (cx + dx) (cy + dy)"
    then consider "marked a (cx + dx) (cy + dy)" | "oct x y dx dy"
      using assms(2) by blast
    then show "marked a' (cx - dx) (cy + dy) \<and> marked a' (cx + dx) (cy - dy)
        \<and> marked a' (cx - dx) (cy - dy) \<and> marked a' (cx + dy) (cy + dx)
        \<and> marked a' (cx - dy) (cy + dx) \<and> marked a' (cx + dy) (cy - dx)
        \<and> marked a' (cx - dy) (cy - dx)"
    proof cases
      case 1
      with assms(1) have "marked a (cx - dx) (cy + dy) \<and> marked a (cx + dx) (cy - dy)
        \<and> marked a (cx - dx) (cy - dy) \<and> marked a (cx + dy) (cy + dx)
        \<and> marked a (cx - dy) (cy + dx) \<and> marked a (cx + dy) (cy - dx)
        \<and> marked a (cx - dy) (cy - dx)"
        unfolding sym8_def by blast
      then show ?thesis by (simp add: m assms(2))
    next
      case 2
      then have "oct x y dy dx" by (simp add: oct_sym)
      with 2 show ?thesis by (simp add: m assms(2))
    qed
  qed
qed

lemma arctan2_le_pi: "arctan2 y x + pi \<le> 2 * pi"
proof -
  have u: "arctan (y / x) < pi / 2" by (rule arctan_ubound)
  have p: "0 < pi" by (rule pi_gt_zero)
  have n: "arctan (y / x) \<le> 0" if "x < 0" "y \<ge> 0"
  proof -
    from that have "y / x \<le> 0" by (simp add: divide_nonneg_neg)
    then show ?thesis by (simp add: arctan_le_zero_iff)
  qed
  consider "x > 0" | "x < 0" "y \<ge> 0" | "x < 0" "y < 0" | "x = 0" "y > 0" | "x = 0" "y < 0"
    | "x = 0" "y = 0"
    by linarith
  then show ?thesis
  proof cases
    case 1
    with u p show ?thesis by (simp add: arctan2_def; linarith)
  next
    case 2
    with n p show ?thesis by (simp add: arctan2_def; linarith)
  next
    case 3
    with u p show ?thesis by (simp add: arctan2_def; linarith)
  next
    case 4
    with p show ?thesis by (simp add: arctan2_def; linarith)
  next
    case 5
    with p show ?thesis by (simp add: arctan2_def; linarith)
  next
    case 6
    with p show ?thesis by (simp add: arctan2_def; linarith)
  qed
qed

lemma oct_passes:
  assumes "oct x y dx dy" "0 \<le> x" "x \<le> y" "y \<le> r" "2 * pi \<le> arc"
    "1 \<le> cx - r" "cx + r \<le> Nx" "1 \<le> cy - r" "cy + r \<le> Ny"
  shows "passes Nx Ny cx cy arc (cx + dx) (cy + dy)"
proof -
  from assms(1) consider "\<bar>dx\<bar> = x" "\<bar>dy\<bar> = y" | "\<bar>dx\<bar> = y" "\<bar>dy\<bar> = x"
    unfolding oct_def by blast
  then have "- r \<le> dx \<and> dx \<le> r \<and> - r \<le> dy \<and> dy \<le> r"
    using assms(2-4) by cases linarith+
  moreover have "arctan2 (real_of_int (cx + dx - cx)) (real_of_int (cy + dy - cy)) + pi \<le> arc"
    using arctan2_le_pi [of "real_of_int (cx + dx - cx)" "real_of_int (cy + dy - cy)"] assms(5)
    by linarith
  ultimately show ?thesis using assms(6-9) by (simp add: passes_def)
qed

lemma circle_loop_sym8:
  assumes "shaped Nx Ny a" "2 * pi \<le> arc" "0 \<le> x0" "x0 \<le> y0" "y0 \<le> r"
    "1 \<le> cx - r" "cx + r \<le> Nx" "1 \<le> cy - r" "cy + r \<le> Ny" "sym8 cx cy a"
  shows "\<exists>a'. circle_loop Nx Ny cx cy arc x0 y0 d0 a = Inr a' \<and> sym8 cx cy a'"
  using assms
proof (induction Nx Ny cx cy arc x0 y0 d0 a rule: circle_loop.induct)
  case (1 Nx Ny cx cy arc x0 y0 d0 a)
  show ?case
  proof (cases "x0 < y0 - 1")
    case False
    with "1.prems"(10) show ?thesis
      by (simp add: circle_loop.simps [of Nx Ny cx cy arc x0 y0 d0 a])
  next
    case True
    obtain x y d where st: "midpoint_step x0 y0 d0 = (x, y, d)" by (cases "midpoint_step x0 y0 d0")
    with True "1.prems"(3-5) have xy: "0 \<le> x" "x \<le> y" "y \<le> r"
      by (auto simp: midpoint_step_def Let_def split: if_splits)
    then have xy01: "0 \<le> y" by linarith
    let ?ps = "zip [x + cx, y + cx, y + cx, x + cx, - x + cx, - y + cx, - y + cx, - x + cx]
                   [y + cy, x + cy, - x + cy, - y + cy, - y + cy, - x + cy, x + cy, y + cy]"
    from for_each_plot_marked [OF "1.prems"(1), of cx cy arc ?ps] obtain a1 where
      a1: "for_each (plot Nx Ny cx cy arc) a ?ps = Inr a1" "shaped Nx Ny a1"
        "\<And>qx qy. marked a1 qx qy
            = (marked a qx qy \<or> ((qx, qy) \<in> set ?ps \<and> passes Nx Ny cx cy arc qx qy))"
      by blast
    have "marked a1 (cx + dx) (cy + dy) = (marked a (cx + dx) (cy + dy) \<or> oct x y dx dy)" for dx dy
      using a1(3) [of "cx + dx" "cy + dy"] oct_points [OF xy(1) xy01, of cx dx cy dy]
        oct_passes [OF _ xy "1.prems"(2) "1.prems"(6-9), of dx dy]
      by blast
    with "1.prems"(10) have s1: "sym8 cx cy a1" by (rule sym8_extend)
    from "1.IH" [OF True st [symmetric] refl refl refl a1(1) a1(2) "1.prems"(2) xy "1.prems"(6-9) s1]
    obtain a2 where a2: "circle_loop Nx Ny cx cy arc x y d a1 = Inr a2" "sym8 cx cy a2"
      by blast
    have "circle_loop Nx Ny cx cy arc x0 y0 d0 a = Inr a2"
      using True st a1(1) a2(1) by (subst circle_loop.simps) (simp add: Let_def)
    with a2(2) show ?thesis by blast
  qed
qed

text \<open>
  C5. When the circle of radius \<open>radius\<close> about \<open>(cx, cy)\<close> lies within the grid,
  \<^verbatim>\<open>makeCircle\<close> with the full aperture \<open>2 * pi\<close> returns a grid whose marked points
  are symmetric under the eight reflections about \<open>(cx, cy)\<close>.
\<close>

theorem makeCircle_symmetric:
  assumes "0 \<le> radius" "1 \<le> cx - radius" "cx + radius \<le> Nx"
    "1 \<le> cy - radius" "cy + radius \<le> Ny"
  shows "\<exists>circle. makeCircle Nx Ny cx cy radius (Some (2 * pi)) = Inr circle
           \<and> (\<forall>dx dy. marked circle (cx + dx) (cy + dy) \<longrightarrow>
                 marked circle (cx - dx) (cy + dy) \<and> marked circle (cx + dx) (cy - dy)
                 \<and> marked circle (cx - dx) (cy - dy) \<and> marked circle (cx + dy) (cy + dx)
                 \<and> marked circle (cx - dy) (cy + dx) \<and> marked circle (cx + dy) (cy - dx)
                 \<and> marked circle (cx - dy) (cy - dx))"
proof -
  from assms have n: "0 \<le> Nx" "0 \<le> Ny" and c: "1 \<le> cx" "cx \<le> Nx" "1 \<le> cy" "cy \<le> Ny"
    by linarith+
  then have dc: "default_centre cx Nx = cx" "default_centre cy Ny = cy"
    by (simp_all add: default_centre_def)
  have arc: "clamp_arc_angle (Some (2 * pi)) = 2 * pi"
    using pi_gt_zero by (simp add: clamp_arc_angle_def)
  from n obtain c0 where c0: "zeros Nx Ny = Inr c0" by (auto simp: zeros_def)
  then have s0: "shaped Nx Ny c0" and m0: "\<And>qx qy. \<not> marked c0 qx qy"
    by (simp_all add: shaped_zeros marked_zeros)
  from setitem_in_range [OF s0 c(1,2) assms(4)] assms obtain c1 where
    c1: "setitem c0 (cx - 1) (cy - radius - 1) 1 = Inr c1" "shaped Nx Ny c1"
      "\<And>qx qy. marked c1 qx qy = (marked c0 qx qy \<or> (qx = cx \<and> qy = cy - radius))"
    by auto
  let ?ps = "zip [cx, cx + radius, cx - radius] [cy + radius, cy, cy]"
  from for_each_plot_marked [OF c1(2), of cx cy "2 * pi" ?ps] obtain c2 where
    c2: "for_each (plot Nx Ny cx cy (2 * pi)) c1 ?ps = Inr c2" "shaped Nx Ny c2"
      "\<And>qx qy. marked c2 qx qy
          = (marked c1 qx qy \<or> ((qx, qy) \<in> set ?ps \<and> passes Nx Ny cx cy (2 * pi) qx qy))"
    by blast
  have z: "0 \<le> (0::int)" "2 * pi \<le> 2 * pi" by simp_all
  have "marked c2 (cx + dx) (cy + dy) = (marked c0 (cx + dx) (cy + dy) \<or> oct 0 radius dx dy)"
    for dx dy
  proof -
    have "passes Nx Ny cx cy (2 * pi) (cx + dx) (cy + dy)" if "oct 0 radius dx dy"
      using oct_passes [OF that z(1) assms(1) order_refl z(2) assms(2-5)] .
    moreover have "((cx + dx = cx \<and> cy + dy = cy - radius) \<or> (cx + dx, cy + dy) \<in> set ?ps)
        = oct 0 radius dx dy"
      unfolding oct_def abs_eq_cases [OF assms(1)] by auto
    ultimately show ?thesis
      using c2(3) [of "cx + dx" "cy + dy"] c1(3) [of "cx + dx" "cy + dy"] by blast
  qed
  moreover have "sym8 cx cy c0" by (simp add: sym8_def m0)
  ultimately have s2: "sym8 cx cy c2" by (rule sym8_extend [rotated])
  from circle_loop_sym8 [OF c2(2) z(2) z(1) assms(1) order_refl assms(2-5) s2, of "1 - radius"]
  obtain c3 where c3: "circle_loop Nx Ny cx cy (2 * pi) 0 radius (1 - radius) c2 = Inr c3"
    "sym8 cx cy c3"
    by blast
  have "makeCircle Nx Ny cx cy radius (Some (2 * pi)) = Inr c3"
    using c0 c1(1) c2(1) c3(1) c assms by (simp add: makeCircle_def Let_def dc arc)
  with c3(2) show ?thesis unfolding sym8_def by blast
qed

theorem makeCircle_symmetric_witness:
  "((0::int) \<le> 1 \<and> (1::int) \<le> 3 - 1 \<and> (3::int) + 1 \<le> 5 \<and> (1::int) \<le> 3 - 1 \<and> (3::int) + 1 \<le> 5)
   \<and> (\<exists>circle. makeCircle 5 5 3 3 1 (Some (2 * pi)) = Inr circle
           \<and> (\<forall>dx dy. marked circle (3 + dx) (3 + dy) \<longrightarrow>
                 marked circle (3 - dx) (3 + dy) \<and> marked circle (3 + dx) (3 - dy)
                 \<and> marked circle (3 - dx) (3 - dy) \<and> marked circle (3 + dy) (3 + dx)
                 \<and> marked circle (3 - dy) (3 + dx) \<and> marked circle (3 + dy) (3 - dx)
                 \<and> marked circle (3 - dy) (3 - dx)))"
  using makeCircle_symmetric [where radius = 1 and cx = 3 and cy = 3 and Nx = 5 and Ny = 5]
  by simp

section \<open>Properties of makeLine\<close>

lemma makeLine_AtoB_3_3:
  "makeLine_AtoB 3 3 (1, 1) (3, 1) = Some (Inl TypeError)"
  by code_simp

text \<open>
  C8 (the code departs from it). The horizontal line \<^verbatim>\<open>makeLine(3, 3, (1,1), (3,1))\<close> has
  the gradient \<open>m = 0\<close> and is traced by the loop over \<open>x\<close>. After the start point is
  written, the first step of that loop raises TypeError at \<^verbatim>\<open>m * poss_x\<close>: no grid is
  returned, so no cell is written at a shifted or wrapped index.
\<close>

theorem makeLine_3_3_horizontal_raises:
  "makeLine 3 3 (1, 1) (Some (3, 1)) None None = Some (Inl TypeError)"
  by (simp add: makeLine_def makeLine_AtoB_3_3)

lemma makeLine_AtoB_3_2:
  "makeLine_AtoB 3 2 (1, 1) (3, 2) = Some (Inl TypeError)"
  by code_simp

lemma makeLine_AtoB_5_4:
  "makeLine_AtoB 5 4 (1, 1) (5, 4) = Some (Inl TypeError)"
  by code_simp

text \<open>
  C6 (the code departs from it). For \<open>Ny < Nx\<close> the gradient of the diagonal is below 1
  and the line is traced by the loop over \<open>x\<close>, whose first step raises TypeError at
  \<^verbatim>\<open>m * poss_x\<close>: \<^verbatim>\<open>makeLine(3, 2, (1,1), (3,2))\<close> and \<^verbatim>\<open>makeLine(5, 4, (1,1), (5,4))\<close>
  return no grid at all.
\<close>

theorem makeLine_diagonal_raises:
  "makeLine 3 2 (1, 1) (Some (3, 2)) None None = Some (Inl TypeError)
   \<and> makeLine 5 4 (1, 1) (Some (5, 4)) None None = Some (Inl TypeError)"
  by (simp add: makeLine_def makeLine_AtoB_3_2 makeLine_AtoB_5_4)

lemma normalise_angle_0: "normalise_angle 0 = 0"
  using pi_gt_zero by (simp add: normalise_angle_def)

lemma zeros_3_3: "zeros 3 3 = Inr [[0,0,0], [0,0,0], [0,0,0]]"
  by code_simp

lemma setitem_3_3_wrap:
  "setitem [[0,0,0], [0,0,0], [0,0,0]] (- 1) 0 1 = Inr [[0,0,0], [0,0,0], [1,0,0]]"
  by code_simp

text \<open>
  C3 (the code departs from it). In the angle mode a start point outside the grid raises
  nothing at function entry: \<^verbatim>\<open>makeLine(3, 3, (0,1), angle=0, length=1)\<close> returns a grid,
  with the start point written through the wrapped index \<open>-1\<close> into the last row.
\<close>

theorem makeLine_angled_start_outside:
  "makeLine 3 3 (0, 1) None (Some 0) (Some 1) = Some (Inr [[0,0,0], [0,0,0], [1,0,0]])"
  using pi_gt_zero
  by (simp add: makeLine_def makeLine_angled_def normalise_angle_0 zeros_3_3 setitem_3_3_wrap
      angled_zero.simps)













section \<open>Properties of makeArc\<close>



section \<open>Properties of makeCartCircle\<close>

text \<open>
  C10. For an arc angle below \<open>2 * pi\<close> and \<^verbatim>\<open>num_points = 1\<close> the number of points is
  decremented to 0 and the angle step divides by it: the single angle, and with it both
  coordinates of the \<open>2 \<times> 1\<close> array returned, is not a finite number.
\<close>

theorem makeCartCircle_single_point:
  assumes "arc_angle < 2 * pi"
  shows "makeCartCircle radius 1 center_pos arc_angle = ([None], [None])"
  using assms by (simp add: makeCartCircle_def np_divide_def Let_def split: prod.splits)

theorem makeCartCircle_single_point_witness:
  "pi < 2 * pi \<and> makeCartCircle 1 1 None pi = ([None], [None])"
  using makeCartCircle_single_point [of pi 1 None] pi_gt_zero by simp

end
